theory Spec2Isabelle
  imports Main "HOL-Library.AList"
begin

section \<open>JavaScript values\<close>

text \<open>
  The values that flow through \<^verbatim>\<open>lib/model.js\<close>: attribute values, option
  hashes, database responses and rejection reasons. Objects are association lists (keys
  in insertion order). Numbers are the integers: the source only compares a write result
  with \<^verbatim>\<open>0\<close>. \<open>JHost\<close> stands for an opaque host object (a query builder, a
  transaction handle, a model constructor, a callback): it is truthy and carries no data
  the source reads.
\<close>

datatype jsval =
    JUndefined
  | JNull
  | JBool bool
  | JNum int
  | JStr string
  | JArr "jsval list"
  | JObj "(string \<times> jsval) list"
  | JHost nat

type_synonym obj = "(string \<times> jsval) list"

text \<open>\<^verbatim>\<open>!!v\<close>: the falsy values are undefined, null, false, 0 and the empty string.\<close>

fun truthy :: "jsval \<Rightarrow> bool" where
  "truthy JUndefined = False"
| "truthy JNull = False"
| "truthy (JBool b) = b"
| "truthy (JNum n) = (n \<noteq> 0)"
| "truthy (JStr s) = (s \<noteq> [])"
| "truthy (JArr xs) = True"
| "truthy (JObj kvs) = True"
| "truthy (JHost h) = True"

text \<open>\<^verbatim>\<open>v == null\<close>: true of null and undefined only.\<close>

fun nullish :: "jsval \<Rightarrow> bool" where
  "nullish JUndefined = True"
| "nullish JNull = True"
| "nullish v = False"

text \<open>\<^verbatim>\<open>_.isString\<close> and \<^verbatim>\<open>_.isArray\<close>.\<close>

fun isString :: "jsval \<Rightarrow> bool" where
  "isString (JStr s) = True"
| "isString v = False"

fun isArray :: "jsval \<Rightarrow> bool" where
  "isArray (JArr xs) = True"
| "isArray v = False"

text \<open>Property read \<^verbatim>\<open>o[k]\<close> on an object: a missing key reads as undefined.\<close>

definition js_get :: "obj \<Rightarrow> string \<Rightarrow> jsval" where
  "js_get ob k = (case map_of ob k of None \<Rightarrow> JUndefined | Some v \<Rightarrow> v)"

text \<open>Property write \<^verbatim>\<open>o[k] = v\<close>.\<close>

definition js_set :: "obj \<Rightarrow> string \<Rightarrow> jsval \<Rightarrow> obj" where
  "js_set ob k v = AList.update k v ob"

text \<open>\<^verbatim>\<open>_.extend({}, a, b)\<close>: the keys of \<open>b\<close> win.\<close>

definition js_extend :: "obj \<Rightarrow> obj \<Rightarrow> obj" where
  "js_extend a b = AList.merge a b"

text \<open>\<^verbatim>\<open>_.omit(o, k)\<close>.\<close>

definition js_omit :: "obj \<Rightarrow> string \<Rightarrow> obj" where
  "js_omit ob k = AList.delete k ob"

text \<open>
  \<^verbatim>\<open>v.length\<close> and \<^verbatim>\<open>v[0]\<close> on a value that is neither null nor undefined
  (both reads throw a TypeError there, which the callers below guard or model).
\<close>

fun js_length :: "jsval \<Rightarrow> jsval" where
  "js_length (JArr xs) = JNum (int (length xs))"
| "js_length (JStr s) = JNum (int (length s))"
| "js_length (JObj kvs) = js_get kvs ''length''"
| "js_length v = JUndefined"

fun js_first :: "jsval \<Rightarrow> jsval" where
  "js_first (JArr (x # xs)) = x"
| "js_first (JStr (c # cs)) = JStr [c]"
| "js_first (JObj kvs) = js_get kvs ''0''"
| "js_first v = JUndefined"

section \<open>Rejections\<close>

text \<open>
  A promise is rejected either with an error object (its constructor and message) or
  with a plain value, as \<^verbatim>\<open>Promise.reject(null)\<close> does in \<^verbatim>\<open>fetch\<close>.
\<close>

datatype errkind =
    Error
  | TypeError
  | NotFoundError
  | NoRowsUpdatedError
  | NoRowsDeletedError

datatype reason = Thrown errkind string | Rejected jsval

text \<open>What a method's promise resolves to: the model itself, or a plain value.\<close>

datatype resolved = This | Val jsval

section \<open>The model instance and its collaborators\<close>

text \<open>
  \<open>relatedData\<close> is the relation descriptor a related model carries; the source reads
  its \<^verbatim>\<open>type\<close> and calls \<^verbatim>\<open>isJoined()\<close> on it.
\<close>

record relatedData =
  rel_type :: string
  isJoined :: bool

text \<open>
  The state of the instance that \<^verbatim>\<open>lib/model.js\<close> reads or writes:
  \<open>model_id\<close> is \<^verbatim>\<open>this.id\<close>, \<open>previousAttributes\<close> is
  \<^verbatim>\<open>this._previousAttributes\<close>.
\<close>

record model =
  attributes :: obj
  model_id :: jsval
  previousAttributes :: obj
  relations :: obj

text \<open>
  Every call that \<^verbatim>\<open>lib/model.js\<close> makes into another module is recorded, in
  order, next to the instance.
\<close>

datatype call =
    Call_set obj
  | Call_reset
  | Call_clear
  | Call_timestamp obj
  | Call_saveConstraints
  | Call_parsePivot
  | Call_triggerThen string jsval obj
  | Call_sync obj
  | Call_syncRun jsval jsval
  | Call_eagerFetch jsval obj
  | Call_relation string jsval obj

type_synonym world = "model \<times> call list"

text \<open>
  What the instance inherits. The first four fields are properties fixed when the model
  type is defined or the instance is created: \<^verbatim>\<open>idAttribute\<close>,
  \<^verbatim>\<open>hasTimestamps\<close>, \<open>defaults\<close> for \<^verbatim>\<open>_.result(this, 'defaults')\<close>
  (absent when undefined) and \<open>related\<close> for \<^verbatim>\<open>this.relatedData\<close> (absent on
  a model that is not the target of a relation).

  The other fields are the methods that \<^verbatim>\<open>lib/model.js\<close> calls and that are
  defined in the modules it requires (\<^verbatim>\<open>./base/model\<close>, \<^verbatim>\<open>./sync\<close>,
  \<^verbatim>\<open>./eager\<close>, \<^verbatim>\<open>./helpers\<close>, the relation constructor), together
  with the event handlers the user registered. They are parameters: each is a function
  of its arguments and the instance, returning the instance it leaves behind and, where
  the source waits on a promise, whether it resolved or rejected.

  The event handlers are handed the objects themselves, not copies: what they write to
  the options (or to \<^verbatim>\<open>attrs\<close>) is what the method reads afterwards. So
  \<open>triggerThen\<close> takes the argument that stands before the options (\<^verbatim>\<open>attrs\<close>,
  the response, or undefined when there is none) and the options, and returns both as
  the handlers left them. A Sync is handed the options when it is built; its methods are
  taken to read them only.

  \<^item> \<open>set_attrs\<close>: \<^verbatim>\<open>this.set(attrs, {silent: true})\<close>
  \<^item> \<open>parse\<close>, \<open>format\<close>: \<^verbatim>\<open>this.parse(row)\<close>, \<^verbatim>\<open>this.format(attrs)\<close>,
    functions of their argument alone
  \<^item> \<open>reset\<close>, \<open>clear\<close>: \<^verbatim>\<open>this._reset()\<close>, \<^verbatim>\<open>this.clear()\<close>
  \<^item> \<open>saveMethod\<close>: \<^verbatim>\<open>this.saveMethod(options)\<close>
  \<^item> \<open>timestamp\<close>: \<^verbatim>\<open>this.timestamp(options)\<close>, returning the timestamp values
  \<^item> \<open>triggerThen\<close>: \<^verbatim>\<open>this.triggerThen(names, this, arg, options)\<close>
  \<^item> \<open>sync\<close>: \<^verbatim>\<open>new Sync(this, options)\<close>, returning its \<^verbatim>\<open>query\<close>
  \<^item> \<open>syncRun\<close>: \<^verbatim>\<open>sync[key](arg)\<close> on the Sync built from the options, the
    key being any value (\<^verbatim>\<open>save\<close> reads it from \<^verbatim>\<open>options.method\<close>)
  \<^item> \<open>saveConstraints\<close>: \<^verbatim>\<open>Helpers.saveConstraints(this, this.relatedData)\<close>
  \<^item> \<open>parsePivot\<close>: \<^verbatim>\<open>relatedData.parsePivot([this])\<close>
  \<^item> \<open>eagerFetch\<close>: \<^verbatim>\<open>new EagerRelation([this], response, this).fetch(options)\<close>
  \<^item> \<open>relation\<close>: \<^verbatim>\<open>this._relation(type, Target, options).init(this)\<close>
\<close>

record proto =
  idAttribute :: string
  hasTimestamps :: jsval
  defaults :: "obj option"
  related :: "relatedData option"
  set_attrs :: "obj \<Rightarrow> model \<Rightarrow> model"
  parse :: "jsval \<Rightarrow> obj"
  format :: "obj \<Rightarrow> obj"
  reset :: "model \<Rightarrow> model"
  clear :: "model \<Rightarrow> model"
  saveMethod :: "obj \<Rightarrow> model \<Rightarrow> string"
  timestamp :: "obj \<Rightarrow> model \<Rightarrow> obj \<times> model"
  triggerThen :: "string \<Rightarrow> jsval \<Rightarrow> obj \<Rightarrow> model \<Rightarrow> ((reason + unit) \<times> jsval \<times> obj) \<times> model"
  sync :: "obj \<Rightarrow> model \<Rightarrow> jsval \<times> model"
  syncRun :: "jsval \<Rightarrow> jsval \<Rightarrow> obj \<Rightarrow> model \<Rightarrow> (reason + jsval) \<times> model"
  saveConstraints :: "model \<Rightarrow> model"
  parsePivot :: "model \<Rightarrow> model"
  eagerFetch :: "jsval \<Rightarrow> obj \<Rightarrow> model \<Rightarrow> (reason + unit) \<times> model"
  relation :: "string \<Rightarrow> jsval \<Rightarrow> obj \<Rightarrow> model \<Rightarrow> (reason + jsval) \<times> model"

text \<open>Running a collaborator on the instance and recording the call.\<close>

definition invoke :: "call \<Rightarrow> (model \<Rightarrow> 'a \<times> model) \<Rightarrow> world \<Rightarrow> 'a \<times> world" where
  "invoke c f w = (case f (fst w) of (r, m) \<Rightarrow> (r, (m, snd w @ [c])))"

definition mutate :: "call \<Rightarrow> (model \<Rightarrow> model) \<Rightarrow> world \<Rightarrow> world" where
  "mutate c f w = (f (fst w), snd w @ [c])"

section \<open>fetch\<close>

text \<open>
  \<^verbatim>\<open>_handleResponse\<close>: \<^verbatim>\<open>relatedData\<close> is read first, then the parsed first
  row is set and the change tracking reset, then the pivot is parsed for a joined
  relation.
\<close>

definition handleResponse :: "proto \<Rightarrow> jsval \<Rightarrow> world \<Rightarrow> world" where
  "handleResponse p response w =
     (let rd = related p;
          attrs = parse p (js_first response);
          w1 = mutate Call_reset (reset p) (mutate (Call_set attrs) (set_attrs p attrs) w)
      in (case rd of
            None \<Rightarrow> w1
          | Some r \<Rightarrow> (if isJoined r then mutate Call_parsePivot (parsePivot p) w1 else w1)))"

text \<open>\<^verbatim>\<open>_handleEager\<close>.\<close>

definition handleEager :: "proto \<Rightarrow> jsval \<Rightarrow> obj \<Rightarrow> world \<Rightarrow> (reason + unit) \<times> world" where
  "handleEager p response options w =
     invoke (Call_eagerFetch response options) (eagerFetch p response options) w"

text \<open>
  The promise chain of \<^verbatim>\<open>fetch\<close> up to \<^verbatim>\<open>.return(this)\<close>. A rejected step
  skips the steps after it.
\<close>

definition fetch_chain :: "proto \<Rightarrow> obj \<Rightarrow> world \<Rightarrow> (reason + resolved) \<times> world" where
  "fetch_chain p options w =
     (case invoke (Call_sync options) (sync p options) w of (q, w0) \<Rightarrow>
       (case invoke (Call_syncRun (JStr ''first'') JUndefined)
               (syncRun p (JStr ''first'') JUndefined options) w0 of
          (Inl err, w1) \<Rightarrow> (Inl err, w1)
        | (Inr response, w1) \<Rightarrow>
            (if \<not> truthy response \<or> js_length response = JNum 0 then
               (if truthy (js_get options ''require'')
                then (Inl (Thrown NotFoundError ''EmptyResponse''), w1)
                else (Inl (Rejected JNull), w1))
             else
               (let w2 = handleResponse p response w1 in
                (case (if truthy (js_get options ''withRelated'')
                       then handleEager p response (js_omit options ''columns'') w2
                       else (Inr (), w2)) of
                   (Inl err, w3) \<Rightarrow> (Inl err, w3)
                 | (Inr u, w3) \<Rightarrow>
                     (case invoke (Call_triggerThen ''fetched'' response options)
                             (triggerThen p ''fetched'' response options) w3 of
                        ((Inl err, left), w4) \<Rightarrow> (Inl err, w4)
                      | ((Inr u', left), w4) \<Rightarrow> (Inr This, w4)))))))"

text \<open>
  \<^verbatim>\<open>fetch\<close>: the options are cloned (or default to the empty hash), and the final
  \<^verbatim>\<open>.catch\<close> turns a rejection with \<^verbatim>\<open>null\<close> into a resolution with that
  same \<^verbatim>\<open>null\<close>; every other rejection is rethrown.
\<close>

definition fetch :: "proto \<Rightarrow> obj option \<Rightarrow> world \<Rightarrow> (reason + resolved) \<times> world" where
  "fetch p options w =
     (case fetch_chain p (case options of None \<Rightarrow> [] | Some ob \<Rightarrow> ob) w of
        (Inl err, w') \<Rightarrow>
          (if err = Rejected JNull then (Inr (Val JNull), w') else (Inl err, w'))
      | (Inr r, w') \<Rightarrow> (Inr r, w'))"

section \<open>load\<close>

text \<open>
  \<^verbatim>\<open>load\<close>: the response handed to the eager loader is the one-row array of
  the formatted attributes; the options are the caller's, extended with
  \<^verbatim>\<open>shallow: true\<close> and the relations as an array.
\<close>

definition load :: "proto \<Rightarrow> jsval \<Rightarrow> obj option \<Rightarrow> world \<Rightarrow> (reason + resolved) \<times> world" where
  "load p rels options w =
     (let response = JArr [JObj (format p (attributes (fst w)))];
          opts = js_extend (case options of None \<Rightarrow> [] | Some ob \<Rightarrow> ob)
                   [(''shallow'', JBool True),
                    (''withRelated'', if isArray rels then rels else JArr [rels])]
      in (case handleEager p response opts w of
            (Inl err, w1) \<Rightarrow> (Inl err, w1)
          | (Inr u, w1) \<Rightarrow> (Inr This, w1)))"

section \<open>save\<close>

text \<open>
  The two call styles of \<^verbatim>\<open>save\<close>: \<^verbatim>\<open>save(attrs, options)\<close>, either
  of which may be left out, and \<^verbatim>\<open>save(key, val, options)\<close>.
\<close>

datatype save_args =
    Save_hash "obj option" "obj option"
  | Save_pair string jsval "obj option"

definition save_attrs :: "save_args \<Rightarrow> obj" where
  "save_attrs a =
     (case a of
        Save_hash key val \<Rightarrow> (case key of None \<Rightarrow> [] | Some ob \<Rightarrow> ob)
      | Save_pair key val options \<Rightarrow> [(key, val)])"

definition save_options :: "save_args \<Rightarrow> obj" where
  "save_options a =
     (case a of
        Save_hash key val \<Rightarrow> (case val of None \<Rightarrow> [] | Some ob \<Rightarrow> ob)
      | Save_pair key val options \<Rightarrow> (case options of None \<Rightarrow> [] | Some ob \<Rightarrow> ob))"

text \<open>The event names fired before and after the write.\<close>

definition saving_events :: "string \<Rightarrow> string" where
  "saving_events method = (if method = ''insert'' then ''creating saving'' else ''updating saving'')"

definition saved_events :: "string \<Rightarrow> string" where
  "saved_events method = (if method = ''insert'' then ''created saved'' else ''updated saved'')"

text \<open>
  The defaults are merged under the attributes when the save is an insert or the
  \<^verbatim>\<open>defaults\<close> option is set, and the model defines defaults.
\<close>

definition save_defaults :: "proto \<Rightarrow> string \<Rightarrow> obj \<Rightarrow> obj \<Rightarrow> model \<Rightarrow> obj" where
  "save_defaults p method options attrs m =
     (if method = ''insert'' \<or> truthy (js_get options ''defaults'')
      then (case defaults p of
              None \<Rightarrow> attrs
            | Some dflt \<Rightarrow> js_extend (js_extend dflt (attributes m)) attrs)
      else attrs)"

text \<open>
  With \<^verbatim>\<open>hasTimestamps\<close>, \<^verbatim>\<open>this.timestamp\<close> is called and the values it
  returns are added to \<^verbatim>\<open>attrs\<close>.
\<close>

definition save_timestamps :: "proto \<Rightarrow> string \<Rightarrow> obj \<Rightarrow> world \<Rightarrow> obj \<times> world" where
  "save_timestamps p method attrs w =
     (if truthy (hasTimestamps p)
      then (case invoke (Call_timestamp [(''method'', JStr method), (''silent'', JBool True)])
                   (timestamp p [(''method'', JStr method), (''silent'', JBool True)]) w of
              (vals, w') \<Rightarrow> (js_extend attrs vals, w'))
      else (attrs, w))"

text \<open>The save constraints of a relation other than \<^verbatim>\<open>morphTo\<close> are applied.\<close>

definition save_constrain :: "proto \<Rightarrow> world \<Rightarrow> world" where
  "save_constrain p w =
     (case related p of
        None \<Rightarrow> w
      | Some r \<Rightarrow> (if rel_type r \<noteq> ''morphTo''
                   then mutate Call_saveConstraints (saveConstraints p) w else w))"

text \<open>
  The synchronous part of \<^verbatim>\<open>save\<close> that runs before the first event is
  triggered: the method is chosen and stored in the options, the defaults are merged,
  the attributes are set, the timestamps are taken, the save constraints are applied,
  and the Sync is built, its query stored in the options. The result is the method,
  \<^verbatim>\<open>attrs\<close>, the options and the instance.
  (The value of \<^verbatim>\<open>this.isNew(options)\<close>, computed one step earlier, is not used.)
\<close>

definition save_prepare :: "proto \<Rightarrow> obj \<Rightarrow> obj \<Rightarrow> world \<Rightarrow> string \<times> obj \<times> obj \<times> world" where
  "save_prepare p attrs0 options0 w =
     (let method = saveMethod p options0 (fst w);
          options1 = js_set options0 ''method'' (JStr method);
          attrs1 = save_defaults p method options1 attrs0 (fst w);
          w1 = mutate (Call_set attrs1) (set_attrs p attrs1) w
      in (case save_timestamps p method attrs1 w1 of
            (attrs2, w2) \<Rightarrow>
              (case invoke (Call_sync options1) (sync p options1) (save_constrain p w2) of
                 (q, w3) \<Rightarrow> (method, attrs2, js_set options1 ''query'' q, w3))))"

text \<open>
  The last callback of \<^verbatim>\<open>save\<close>, run with the write result \<^verbatim>\<open>resp\<close> and
  the options as the handlers left them. \<^verbatim>\<open>resp[0]\<close> throws a TypeError when
  the result is null or undefined.
\<close>

definition save_finish :: "proto \<Rightarrow> string \<Rightarrow> obj \<Rightarrow> jsval \<Rightarrow> world \<Rightarrow> (reason + resolved) \<times> world" where
  "save_finish p method options resp w =
     (let options' = js_set options ''previousAttributes'' (JObj (previousAttributes (fst w)));
          w1 = mutate Call_reset (reset p) w
      in (case invoke (Call_triggerThen (saved_events method) resp options')
                 (triggerThen p (saved_events method) resp options') w1 of
            ((Inl err, left), w2) \<Rightarrow> (Inl err, w2)
          | ((Inr u, left), w2) \<Rightarrow> (Inr This, w2)))"

definition save_written :: "proto \<Rightarrow> string \<Rightarrow> obj \<Rightarrow> jsval \<Rightarrow> world \<Rightarrow> (reason + resolved) \<times> world" where
  "save_written p method options resp w =
     (if method = ''insert'' \<and> nullish (model_id (fst w)) then
        (if nullish resp then (Inl (Thrown TypeError ''resp[0]''), w)
         else save_finish p method options resp
                ((fst w)\<lparr>model_id := js_first resp,
                         attributes := js_set (attributes (fst w)) (idAttribute p) (js_first resp)\<rparr>,
                 snd w))
      else if method = ''update'' \<and> resp = JNum 0 \<and> js_get options ''require'' \<noteq> JBool False then
        (Inl (Thrown NoRowsUpdatedError ''No Rows Updated''), w)
      else save_finish p method options resp w)"

text \<open>
  What the write is given: \<^verbatim>\<open>attrs\<close>, as the handlers left it, for a patching
  update, else all the attributes. \<^verbatim>\<open>options.patch\<close> is read after the handlers.
\<close>

definition save_payload :: "string \<Rightarrow> obj \<Rightarrow> jsval \<Rightarrow> model \<Rightarrow> jsval" where
  "save_payload method options attrs m =
     (if method = ''update'' \<and> truthy (js_get options ''patch'') then attrs else JObj (attributes m))"

text \<open>
  \<^verbatim>\<open>save\<close>. The handlers of the first events are handed \<^verbatim>\<open>attrs\<close> and the
  options; the Sync method called is \<^verbatim>\<open>sync[options.method]\<close>, the payload and
  \<^verbatim>\<open>options.require\<close> are read, all from the objects as the handlers left them.
  The choice between the insert and the update branch uses the method chosen at the start.
\<close>

definition save :: "proto \<Rightarrow> save_args \<Rightarrow> world \<Rightarrow> (reason + resolved) \<times> world" where
  "save p args w =
     (case save_prepare p (save_attrs args) (save_options args) w of
        (method, attrs, options, w1) \<Rightarrow>
          (case invoke (Call_triggerThen (saving_events method) (JObj attrs) options)
                  (triggerThen p (saving_events method) (JObj attrs) options) w1 of
             ((Inl err, left), w2) \<Rightarrow> (Inl err, w2)
           | ((Inr u, attrs', options'), w2) \<Rightarrow>
               (case invoke (Call_syncRun (js_get options' ''method'')
                               (save_payload method options' attrs' (fst w2)))
                       (syncRun p (js_get options' ''method'')
                          (save_payload method options' attrs' (fst w2)) options') w2 of
                  (Inl err, w3) \<Rightarrow> (Inl err, w3)
                | (Inr resp, w3) \<Rightarrow> save_written p method options' resp w3)))"

section \<open>destroy\<close>

text \<open>
  \<^verbatim>\<open>destroy\<close>. The destroying handlers are handed the options, and
  \<^verbatim>\<open>options.require\<close> is read after them and after the delete, from the options
  as the handlers left them. The handlers have no argument before the options.
\<close>

definition destroy :: "proto \<Rightarrow> obj option \<Rightarrow> world \<Rightarrow> (reason + resolved) \<times> world" where
  "destroy p options0 w =
     (let options1 = (case options0 of None \<Rightarrow> [] | Some ob \<Rightarrow> ob);
          built = invoke (Call_sync options1) (sync p options1) w;
          options = js_set options1 ''query'' (fst built)
      in (case invoke (Call_triggerThen ''destroying'' JUndefined options)
                 (triggerThen p ''destroying'' JUndefined options) (snd built) of
            ((Inl err, left), w1) \<Rightarrow> (Inl err, w1)
          | ((Inr u, none, options'), w1) \<Rightarrow>
              (case invoke (Call_syncRun (JStr ''del'') JUndefined)
                      (syncRun p (JStr ''del'') JUndefined options') w1 of
                 (Inl err, w2) \<Rightarrow> (Inl err, w2)
               | (Inr resp, w2) \<Rightarrow>
                   (if truthy (js_get options' ''require'') \<and> resp = JNum 0 then
                      (Inl (Thrown NoRowsDeletedError ''No Rows Deleted''), w2)
                    else
                      (let w3 = mutate Call_clear (clear p) w2 in
                       (case invoke (Call_triggerThen ''destroyed'' resp options')
                               (triggerThen p ''destroyed'' resp options') w3 of
                          ((Inl err, left), w4) \<Rightarrow> (Inl err, w4)
                        | ((Inr u', left), w4) \<Rightarrow> (Inr This, mutate Call_reset (reset p) w4)))))))"

section \<open>Polymorphic relations\<close>

text \<open>\<^verbatim>\<open>arguments[i]\<close>: undefined beyond the arguments passed.\<close>

definition argument :: "jsval list \<Rightarrow> nat \<Rightarrow> jsval" where
  "argument args i = (if i < length args then args ! i else JUndefined)"

text \<open>
  \<^verbatim>\<open>morphTo(morphName, [columnNames], ...candidates)\<close>, on its argument list. A
  synchronous \<^verbatim>\<open>throw\<close> is the \<open>Inl\<close> result. The \<^verbatim>\<open>_.rest\<close> of
  lodash 3 takes no count and drops the first element only, so that with column names
  given \<^verbatim>\<open>_.rest(arguments, 2)\<close> leaves the column names among the candidates.
\<close>

definition morphTo :: "proto \<Rightarrow> jsval list \<Rightarrow> world \<Rightarrow> (reason + jsval) \<times> world" where
  "morphTo p args w =
     (let morphName = argument args 0 in
      if \<not> isString morphName then
        (Inl (Thrown Error ''The `morphTo` name must be specified.''), w)
      else
        (let columnNames = (if isArray (argument args 1) then argument args 1 else JNull);
             remainder = drop 1 args;
             opts = [(''morphName'', morphName), (''columnNames'', columnNames),
                     (''candidates'', JArr remainder)]
         in invoke (Call_relation ''morphTo'' JNull opts) (relation p ''morphTo'' JNull opts) w))"

text \<open>\<^verbatim>\<open>_morphOneOrMany\<close>, and the two methods that call it.\<close>

definition morphOneOrMany ::
    "proto \<Rightarrow> jsval \<Rightarrow> jsval \<Rightarrow> jsval \<Rightarrow> jsval \<Rightarrow> string \<Rightarrow> world \<Rightarrow> (reason + jsval) \<times> world" where
  "morphOneOrMany p Target morphName columnNames morphValue kind w =
     (let morphValue' = (if \<not> isArray columnNames then columnNames else morphValue);
          columnNames' = (if \<not> isArray columnNames then JNull else columnNames)
      in if \<not> truthy morphName \<or> \<not> truthy Target then
           (Inl (Thrown Error ''The polymorphic `name` and `Target` are required.''), w)
         else
           (let opts = [(''morphName'', morphName), (''morphValue'', morphValue'),
                        (''columnNames'', columnNames')]
            in invoke (Call_relation kind Target opts) (relation p kind Target opts) w))"

definition morphOne :: "proto \<Rightarrow> jsval \<Rightarrow> jsval \<Rightarrow> jsval \<Rightarrow> jsval \<Rightarrow> world \<Rightarrow> (reason + jsval) \<times> world" where
  "morphOne p Target name columnNames morphValue w =
     morphOneOrMany p Target name columnNames morphValue ''morphOne'' w"

definition morphMany :: "proto \<Rightarrow> jsval \<Rightarrow> jsval \<Rightarrow> jsval \<Rightarrow> jsval \<Rightarrow> world \<Rightarrow> (reason + jsval) \<times> world" where
  "morphMany p Target name columnNames morphValue w =
     morphOneOrMany p Target name columnNames morphValue ''morphMany'' w"

section \<open>The eager loader, as specified\<close>

text \<open>
  Modelled from the spec: the first segment of a dot-delimited relation path, the
  relation name at this level (path handling of \<^verbatim>\<open>lib/eager.js\<close>, which is not
  among the sources).
\<close>

definition first_segment :: "string \<Rightarrow> string" where
  "first_segment path = takeWhile (\<lambda>c. c \<noteq> CHR ''.'') path"

text \<open>
  Modelled from the spec: the requested relation paths, an ordered sequence of path
  strings (the reading of \<^verbatim>\<open>withRelated\<close> in \<^verbatim>\<open>lib/eager.js\<close>, which is not
  among the sources).
\<close>

fun requested_paths :: "jsval \<Rightarrow> string list" where
  "requested_paths (JArr xs) = concat (map (\<lambda>v. case v of JStr s \<Rightarrow> [s] | _ \<Rightarrow> []) xs)"
| "requested_paths (JStr s) = [s]"
| "requested_paths v = []"

text \<open>
  Modelled from the spec: attaching one resolved relation to the root (part of
  \<^verbatim>\<open>lib/eager.js\<close>, which is not among the sources). The resolved value is attached
  to the root's \<^verbatim>\<open>relations\<close> map under the relation name, the entry being
  overwritten wholesale, never merged. \<open>resolve name rows\<close> stands for the declared
  relations and the database: the value the relation \<open>name\<close> resolves to for the root
  rows, or \<open>None\<close> when no such relation is declared.
\<close>

definition attach :: "(string \<Rightarrow> jsval \<Rightarrow> jsval option) \<Rightarrow> jsval \<Rightarrow> string \<Rightarrow> obj \<Rightarrow> obj" where
  "attach resolve rows name rels =
     (case resolve name rows of None \<Rightarrow> rels | Some v \<Rightarrow> js_set rels name v)"

text \<open>
  Modelled from the spec: the eager-load engine \<^verbatim>\<open>EagerRelation#fetch\<close>
  (\<^verbatim>\<open>lib/eager.js\<close> and \<^verbatim>\<open>lib/base/eager.js\<close>), which is not among the
  sources. The specification says of it: the requested paths are partitioned by their
  first segment (the distinct relation names at this level); each resolved value is
  attached to the root; a path naming a relation that is not declared fails the whole
  operation, and no partial attachment is surfaced.
\<close>

definition spec_eagerFetch ::
    "(string \<Rightarrow> jsval \<Rightarrow> jsval option) \<Rightarrow> jsval \<Rightarrow> obj \<Rightarrow> model \<Rightarrow> (reason + unit) \<times> model" where
  "spec_eagerFetch resolve rows options m =
     (let names = remdups (map first_segment (requested_paths (js_get options ''withRelated'')))
      in if list_ex (\<lambda>n. resolve n rows = None) names
         then (Inl (Thrown Error ''relation is not defined on the model''), m)
         else (Inr (), m\<lparr>relations := fold (attach resolve rows) names (relations m)\<rparr>))"

section \<open>A concrete prototype\<close>

text \<open>
  A small in-memory prototype on which the definitions can be run: no event handler
  is registered, \<^verbatim>\<open>set\<close> merges the attributes, \<^verbatim>\<open>_reset\<close> remembers them,
  \<^verbatim>\<open>clear\<close> empties them, \<^verbatim>\<open>timestamp\<close> stamps \<^verbatim>\<open>updated_at\<close>
  and, on an instance without id that is not being updated, \<^verbatim>\<open>created_at\<close> (the
  clock reads 1), and the Sync answers a select with \<open>rows\<close> and a write with
  \<open>written\<close>.
\<close>

definition stamps :: "obj \<Rightarrow> model \<Rightarrow> obj" where
  "stamps options m =
     (''updated_at'', JNum 1) #
     (if nullish (model_id m) \<and> js_get options ''method'' \<noteq> JStr ''update''
      then [(''created_at'', JNum 1)] else [])"

definition stub :: "jsval \<Rightarrow> jsval \<Rightarrow> proto" where
  "stub rows written =
     \<lparr> idAttribute = ''id'',
       hasTimestamps = JBool True,
       defaults = None,
       related = None,
       set_attrs = (\<lambda>a m. m\<lparr>attributes := js_extend (attributes m) a\<rparr>),
       parse = (\<lambda>row. case row of JObj kvs \<Rightarrow> kvs | _ \<Rightarrow> []),
       format = (\<lambda>a. a),
       reset = (\<lambda>m. m\<lparr>previousAttributes := attributes m\<rparr>),
       clear = (\<lambda>m. m\<lparr>attributes := []\<rparr>),
       saveMethod = (\<lambda>options m. if nullish (model_id m) then ''insert'' else ''update''),
       timestamp = (\<lambda>options m.
          (stamps options m, m\<lparr>attributes := js_extend (attributes m) (stamps options m)\<rparr>)),
       triggerThen = (\<lambda>names arg options m. ((Inr (), arg, options), m)),
       sync = (\<lambda>options m. (JHost 0, m)),
       syncRun = (\<lambda>key arg options m.
          (Inr (if key = JStr ''first'' then rows else written), m)),
       saveConstraints = (\<lambda>m. m),
       parsePivot = (\<lambda>m. m),
       eagerFetch = (\<lambda>response options m. (Inr (), m)),
       relation = (\<lambda>kind target options m. (Inr (JHost 1), m)) \<rparr>"

text \<open>A handler that rejects every event with the given reason.\<close>

definition rejecting ::
    "reason \<Rightarrow> string \<Rightarrow> jsval \<Rightarrow> obj \<Rightarrow> model \<Rightarrow> ((reason + unit) \<times> jsval \<times> obj) \<times> model" where
  "rejecting r names arg options m = ((Inl r, arg, options), m)"

text \<open>
  A handler that writes \<^verbatim>\<open>options.require = false\<close> on the options it is handed,
  and resolves.
\<close>

definition relaxing ::
    "string \<Rightarrow> jsval \<Rightarrow> obj \<Rightarrow> model \<Rightarrow> ((reason + unit) \<times> jsval \<times> obj) \<times> model" where
  "relaxing names arg options m = ((Inr (), arg, js_set options ''require'' (JBool False)), m)"

text \<open>An instance without attributes or identity, and one stored under the id 1.\<close>

definition fresh :: model where
  "fresh = \<lparr> attributes = [], model_id = JUndefined, previousAttributes = [], relations = [] \<rparr>"

definition stored :: model where
  "stored = \<lparr> attributes = [(''id'', JNum 1)], model_id = JNum 1,
              previousAttributes = [(''id'', JNum 1)], relations = [] \<rparr>"


section \<open>Reading the recorded calls\<close>

text \<open>
  A call of a Sync method is a statement issued against the query builder; a call of
  the eager loader starts the relation queries.
\<close>

fun is_syncRun :: "call \<Rightarrow> bool" where
  "is_syncRun (Call_syncRun key arg) = True"
| "is_syncRun c = False"

fun is_eagerFetch :: "call \<Rightarrow> bool" where
  "is_eagerFetch (Call_eagerFetch response options) = True"
| "is_eagerFetch c = False"

section \<open>Facts about objects\<close>

lemma js_get_Nil: "js_get [] k = JUndefined"
  by (simp add: js_get_def)

lemma js_get_Cons: "js_get ((k', v) # ob) k = (if k' = k then v else js_get ob k)"
  by (simp add: js_get_def)

lemma js_get_js_set: "js_get (js_set ob k v) k' = (if k' = k then v else js_get ob k')"
  by (simp add: js_get_def js_set_def update_conv')

lemma js_get_js_extend:
  "js_get (js_extend a b) k = (case map_of b k of None \<Rightarrow> js_get a k | Some v \<Rightarrow> v)"
  by (simp add: js_get_def js_extend_def merge_conv' map_add_def split: option.splits)

lemma map_of_js_omit: "map_of (js_omit ob k) = (map_of ob)(k := None)"
  by (simp add: js_omit_def delete_conv')


section \<open>The calls each step records\<close>

lemma calls_invoke: "snd (snd (invoke c f w)) = snd w @ [c]"
  by (simp add: invoke_def split_beta)

lemma calls_mutate: "snd (mutate c f w) = snd w @ [c]"
  by (simp add: mutate_def)

lemma calls_handleResponse:
  "snd (handleResponse p resp w) =
     snd w @ [Call_set (parse p (js_first resp)), Call_reset] @
       (case related p of None \<Rightarrow> [] | Some rd \<Rightarrow> if isJoined rd then [Call_parsePivot] else [])"
  by (simp add: handleResponse_def Let_def calls_mutate split: option.splits)

lemma instance_handleResponse:
  "fst (handleResponse p resp w) =
     (case related p of
        None \<Rightarrow> reset p (set_attrs p (parse p (js_first resp)) (fst w))
      | Some rd \<Rightarrow>
          if isJoined rd
          then parsePivot p (reset p (set_attrs p (parse p (js_first resp)) (fst w)))
          else reset p (set_attrs p (parse p (js_first resp)) (fst w)))"
  by (simp add: handleResponse_def Let_def mutate_def split: option.splits)

lemma calls_save_timestamps:
  "snd (snd (save_timestamps p method attrs w)) =
     snd w @ (if truthy (hasTimestamps p)
              then [Call_timestamp [(''method'', JStr method), (''silent'', JBool True)]] else [])"
  by (simp add: save_timestamps_def calls_invoke split_beta)

lemma calls_save_constrain:
  "snd (save_constrain p w) =
     snd w @ (case related p of None \<Rightarrow> []
              | Some r \<Rightarrow> if rel_type r \<noteq> ''morphTo'' then [Call_saveConstraints] else [])"
  by (simp add: save_constrain_def calls_mutate split: option.splits)

lemma calls_save_prepare:
  "snd (snd (snd (snd (save_prepare p a0 o0 w)))) =
     snd w @
       [Call_set (save_defaults p (saveMethod p o0 (fst w))
                    (js_set o0 ''method'' (JStr (saveMethod p o0 (fst w)))) a0 (fst w))] @
       (if truthy (hasTimestamps p)
        then [Call_timestamp [(''method'', JStr (saveMethod p o0 (fst w))), (''silent'', JBool True)]]
        else []) @
       (case related p of None \<Rightarrow> []
        | Some r \<Rightarrow> if rel_type r \<noteq> ''morphTo'' then [Call_saveConstraints] else []) @
       [Call_sync (js_set o0 ''method'' (JStr (saveMethod p o0 (fst w))))]"
  by (simp add: save_prepare_def Let_def split_beta calls_invoke calls_save_constrain
                calls_save_timestamps calls_mutate)


lemma options_save_prepare:
  "k \<noteq> ''query'' \<Longrightarrow> k \<noteq> ''method'' \<Longrightarrow>
   js_get (fst (snd (snd (save_prepare p a0 o0 w)))) k = js_get o0 k"
  by (simp add: save_prepare_def Let_def split_beta js_get_js_set)


section \<open>The paths through save\<close>

lemma save_rejected_before_write:
  assumes "save_prepare p (save_attrs args) (save_options args) w = (meth, attrs, options, w1)"
      and "triggerThen p (saving_events meth) (JObj attrs) options (fst w1) = ((Inl err, left), m2)"
  shows "save p args w =
           (Inl err, (m2, snd w1 @ [Call_triggerThen (saving_events meth) (JObj attrs) options]))"
  using assms by (simp add: save_def invoke_def)

lemma save_after_write:
  assumes "save_prepare p (save_attrs args) (save_options args) w = (meth, attrs, options, w1)"
      and "triggerThen p (saving_events meth) (JObj attrs) options (fst w1) =
             ((Inr u, attrs', options'), m2)"
      and "syncRun p (js_get options' ''method'') (save_payload meth options' attrs' m2) options' m2 =
             (Inr resp, m3)"
  shows "save p args w =
           save_written p meth options' resp
             (m3, snd w1 @ [Call_triggerThen (saving_events meth) (JObj attrs) options,
                            Call_syncRun (js_get options' ''method'')
                              (save_payload meth options' attrs' m2)])"
  using assms by (simp add: save_def invoke_def)

lemma save_finish_result:
  "fst (save_finish p meth options resp w) =
     (case fst (fst (triggerThen p (saved_events meth) resp
                  (js_set options ''previousAttributes'' (JObj (previousAttributes (fst w))))
                  (reset p (fst w)))) of
        Inl err \<Rightarrow> Inl err | Inr u \<Rightarrow> Inr This)"
  by (simp add: save_finish_def invoke_def mutate_def Let_def split: prod.splits sum.splits)



text \<open>The definitions that a run on the concrete prototype unfolds.\<close>

lemmas run_defs =
  save_def save_prepare_def save_attrs_def save_options_def save_defaults_def
  save_timestamps_def save_constrain_def save_payload_def save_written_def save_finish_def
  saving_events_def saved_events_def fetch_def fetch_chain_def handleResponse_def
  handleEager_def load_def destroy_def invoke_def mutate_def stub_def stamps_def fresh_def
  stored_def js_set_def js_extend_def js_omit_def js_get_Nil js_get_Cons Let_def

section \<open>fetch on an empty response\<close>

text \<open>
  When the Sync resolves with no row (a falsy response or one of length 0), nothing
  after the first step of the chain runs: with a truthy \<^verbatim>\<open>require\<close> the promise
  is rejected with \<^verbatim>\<open>NotFoundError\<close>, otherwise it is resolved with
  \<^verbatim>\<open>null\<close>; the instance is the one the Sync left, and the only calls made are
  the two Sync calls (no \<^verbatim>\<open>set\<close>).
\<close>

lemma fetch_no_rows:
  assumes "sync p options m = (q, m0)"
      and "syncRun p (JStr ''first'') JUndefined options m0 = (Inr response, m1)"
      and "\<not> truthy response \<or> js_length response = JNum 0"
  shows "fetch p (Some options) (m, cs) =
           ((if truthy (js_get options ''require'')
             then Inl (Thrown NotFoundError ''EmptyResponse'') else Inr (Val JNull)),
            (m1, cs @ [Call_sync options, Call_syncRun (JStr ''first'') JUndefined]))"
  using assms by (auto simp: fetch_def fetch_chain_def invoke_def)

text \<open>
  C1. \<^verbatim>\<open>fetch\<close> without options on an instance whose select returns the empty
  array: the promise is resolved with \<^verbatim>\<open>null\<close>, which is not
  \<^verbatim>\<open>undefined\<close>, and the instance is untouched.
\<close>

theorem fetch_no_rows_resolves_null:
  "fetch (stub (JArr []) JUndefined) None (fresh, []) =
     (Inr (Val JNull), (fresh, [Call_sync [], Call_syncRun (JStr ''first'') JUndefined])) \<and>
   fst (fetch (stub (JArr []) JUndefined) None (fresh, [])) \<noteq> Inr (Val JUndefined)"
  by (simp add: fetch_def fetch_chain_def invoke_def stub_def js_get_Nil)

section \<open>destroy with require on a row that is gone\<close>

text \<open>
  C3, as the claim has it, fails: the destroying handlers are handed the options and
  \<^verbatim>\<open>options.require\<close> is read after them. Called with \<^verbatim>\<open>require: true\<close>
  on a model whose destroying handler writes \<^verbatim>\<open>options.require = false\<close>, with a
  delete that affects no row, \<^verbatim>\<open>destroy\<close> resolves and the attributes are
  cleared.
\<close>

theorem destroy_require_turned_off_counterexample:
  "js_get [(''require'', JBool True)] ''require'' = JBool True \<and>
   attributes stored = [(''id'', JNum 1)] \<and>
   fst (destroy ((stub JUndefined (JNum 0))\<lparr>triggerThen := relaxing\<rparr>)
          (Some [(''require'', JBool True)]) (stored, [])) = Inr This \<and>
   attributes (fst (snd (destroy ((stub JUndefined (JNum 0))\<lparr>triggerThen := relaxing\<rparr>)
          (Some [(''require'', JBool True)]) (stored, [])))) = [] \<and>
   filter is_syncRun (snd (snd (destroy ((stub JUndefined (JNum 0))\<lparr>triggerThen := relaxing\<rparr>)
          (Some [(''require'', JBool True)]) (stored, [])))) =
     [Call_syncRun (JStr ''del'') JUndefined]"
  by (simp add: run_defs relaxing_def)

lemma destroy_no_rows_path:
  assumes "sync p options m = (q, m0)"
      and "triggerThen p ''destroying'' JUndefined (js_set options ''query'' q) m0 =
             ((Inr u, none, options'), m1)"
      and "truthy (js_get options' ''require'')"
      and "syncRun p (JStr ''del'') JUndefined options' m1 = (Inr (JNum 0), m2)"
  shows "destroy p (Some options) (m, cs) =
           (Inl (Thrown NoRowsDeletedError ''No Rows Deleted''),
            (m2, cs @ [Call_sync options,
                       Call_triggerThen ''destroying'' JUndefined (js_set options ''query'' q),
                       Call_syncRun (JStr ''del'') JUndefined]))"
  using assms by (simp add: destroy_def invoke_def Let_def)

text \<open>
  C3, amended. \<^verbatim>\<open>destroy\<close>, when the destroying handlers resolve and leave the
  options with a truthy \<^verbatim>\<open>require\<close> (they are handed the caller's options with
  the query added), and the delete resolves with 0 affected rows: the promise is
  rejected with \<^verbatim>\<open>NoRowsDeletedError\<close>, \<^verbatim>\<open>clear\<close> is not among the calls made,
  and the instance is exactly the one the delete statement left behind; so where the
  Sync and the handlers leave the attributes alone, the attributes are those the
  instance had before the call. Handlers that leave the options alone leave the
  caller's \<^verbatim>\<open>require\<close>.
\<close>

theorem destroy_require_no_rows:
  assumes "sync p options m = (q, m0)"
      and "triggerThen p ''destroying'' JUndefined (js_set options ''query'' q) m0 =
             ((Inr u, none, options'), m1)"
      and "truthy (js_get options' ''require'')"
      and "syncRun p (JStr ''del'') JUndefined options' m1 = (Inr (JNum 0), m2)"
  shows "fst (destroy p (Some options) (m, cs)) =
           Inl (Thrown NoRowsDeletedError ''No Rows Deleted'') \<and>
         Call_clear \<notin> set (drop (length cs) (snd (snd (destroy p (Some options) (m, cs))))) \<and>
         fst (snd (destroy p (Some options) (m, cs))) = m2 \<and>
         (attributes m0 = attributes m \<and> attributes m1 = attributes m0 \<and>
          attributes m2 = attributes m1 \<longrightarrow>
            attributes (fst (snd (destroy p (Some options) (m, cs)))) = attributes m) \<and>
         (options' = js_set options ''query'' q \<longrightarrow> truthy (js_get options ''require''))"
  using assms(3) by (auto simp add: destroy_no_rows_path [OF assms] js_get_js_set)

theorem destroy_require_no_rows_witness:
  "truthy (js_get [(''require'', JBool True)] ''require'') \<and>
   fst (destroy (stub JUndefined (JNum 0)) (Some [(''require'', JBool True)]) (stored, [])) =
     Inl (Thrown NoRowsDeletedError ''No Rows Deleted'') \<and>
   attributes (fst (snd (destroy (stub JUndefined (JNum 0))
       (Some [(''require'', JBool True)]) (stored, [])))) = attributes stored \<and>
   Call_clear \<notin> set (drop (length ([] :: call list)) (snd (snd (destroy (stub JUndefined (JNum 0))
       (Some [(''require'', JBool True)]) (stored, [])))))"
  using destroy_require_no_rows
    [where p = "stub JUndefined (JNum 0)" and options = "[(''require'', JBool True)]"
       and m = stored and q = "JHost 0" and ?m0.0 = stored and u = "()" and none = JUndefined
       and options' = "[(''require'', JBool True), (''query'', JHost 0)]"
       and ?m1.0 = stored and ?m2.0 = stored and cs = "[]"]
  by (simp add: stub_def stored_def js_get_Cons js_set_def)

section \<open>Polymorphic relations need a name and a target\<close>

text \<open>
  C7. \<^verbatim>\<open>morphTo\<close> throws when its first argument is not a string, and
  \<^verbatim>\<open>morphOne\<close> and \<^verbatim>\<open>morphMany\<close> throw when the name or the target is
  falsy. In each case the instance and the recorded calls are returned as they were:
  no relation has been built, so no query either.
\<close>

theorem morph_requires_name_and_target:
  "(\<not> isString (argument args 0) \<longrightarrow>
      morphTo p args w = (Inl (Thrown Error ''The `morphTo` name must be specified.''), w)) \<and>
   (\<not> truthy name \<or> \<not> truthy Target \<longrightarrow>
      morphOne p Target name columnNames morphValue w =
        (Inl (Thrown Error ''The polymorphic `name` and `Target` are required.''), w) \<and>
      morphMany p Target name columnNames morphValue w =
        (Inl (Thrown Error ''The polymorphic `name` and `Target` are required.''), w))"
  by (simp add: morphTo_def morphOne_def morphMany_def morphOneOrMany_def Let_def)

theorem morph_requires_name_and_target_witness:
  "\<not> isString (argument [] 0) \<and>
   morphTo (stub JUndefined JUndefined) [] (fresh, []) =
     (Inl (Thrown Error ''The `morphTo` name must be specified.''), (fresh, [])) \<and>
   \<not> truthy JUndefined \<and>
   morphOne (stub JUndefined JUndefined) (JHost 7) JUndefined JUndefined JUndefined (fresh, []) =
     (Inl (Thrown Error ''The polymorphic `name` and `Target` are required.''), (fresh, [])) \<and>
   morphMany (stub JUndefined JUndefined) JUndefined (JStr ''imageable'') JUndefined JUndefined (fresh, []) =
     (Inl (Thrown Error ''The polymorphic `name` and `Target` are required.''), (fresh, []))"
  using morph_requires_name_and_target
    [of "[]" "stub JUndefined JUndefined" "(fresh, [])" JUndefined "JHost 7" JUndefined JUndefined]
    morph_requires_name_and_target
    [of "[]" "stub JUndefined JUndefined" "(fresh, [])" "JStr ''imageable''" JUndefined JUndefined JUndefined]
  by (simp add: argument_def)

section \<open>save: an update that matches no row\<close>

text \<open>
  C2, as the claim has it, fails: an update of a stored instance that affects no row,
  saved without any option, is rejected with \<^verbatim>\<open>NoRowsUpdatedError\<close> although
  \<^verbatim>\<open>require\<close> was not supplied.
\<close>

theorem save_update_without_require_counterexample:
  "map_of (save_options (Save_hash None None)) ''require'' = None \<and>
   fst (save (stub JUndefined (JNum 0)) (Save_hash None None) (stored, [])) =
     Inl (Thrown NoRowsUpdatedError ''No Rows Updated'')"
  by (simp add: run_defs)

text \<open>
  C2, amended. For a save that performs an update, whose updating and saving handlers
  resolve, leaving the options as \<open>options'\<close>, and whose update statement resolves with
  \<open>resp\<close>: the promise is rejected with \<^verbatim>\<open>NoRowsUpdatedError\<close> if and only if
  \<open>resp\<close> is 0 and \<^verbatim>\<open>require\<close> in \<open>options'\<close> is not \<^verbatim>\<open>false\<close> (an absent
  \<^verbatim>\<open>require\<close> counts as set); with \<^verbatim>\<open>require: false\<close> there, the promise
  is what the updated and saved handlers make of it, resolved with the model when they
  resolve. The handlers are handed the caller's options (with the method and the query
  added), so handlers that leave \<^verbatim>\<open>require\<close> alone leave the caller's. The
  updated and saved handlers are taken not to raise \<^verbatim>\<open>NoRowsUpdatedError\<close>
  themselves.
\<close>

theorem save_update_no_rows:
  assumes prep: "save_prepare p (save_attrs args) (save_options args) w =
                   (''update'', attrs, options, w1)"
      and pre: "triggerThen p ''updating saving'' (JObj attrs) options (fst w1) =
                  ((Inr u, attrs', options'), m2)"
      and wr: "syncRun p (js_get options' ''method'') (save_payload ''update'' options' attrs' m2)
                 options' m2 = (Inr resp, m3)"
      and post: "\<forall>a ob x e. fst (fst (triggerThen p ''updated saved'' a ob x)) \<noteq>
                   Inl (Thrown NoRowsUpdatedError e)"
  shows "((\<exists>e. fst (save p args w) = Inl (Thrown NoRowsUpdatedError e)) \<longleftrightarrow>
            resp = JNum 0 \<and> js_get options' ''require'' \<noteq> JBool False) \<and>
         (js_get options' ''require'' = JBool False \<longrightarrow>
            fst (save p args w) =
              (case fst (fst (triggerThen p ''updated saved'' resp
                   (js_set options' ''previousAttributes'' (JObj (previousAttributes m3)))
                   (reset p m3))) of
                 Inl err \<Rightarrow> Inl err | Inr u \<Rightarrow> Inr This)) \<and>
         js_get options ''require'' = js_get (save_options args) ''require''"
proof -
  have req: "js_get options ''require'' = js_get (save_options args) ''require''"
    using options_save_prepare [of "''require''" p "save_attrs args" "save_options args" w] prep
    by simp
  have pre': "triggerThen p (saving_events ''update'') (JObj attrs) options (fst w1) =
                ((Inr u, attrs', options'), m2)"
    using pre by (simp add: saving_events_def)
  note sv = save_after_write [OF prep pre' wr]
  show ?thesis
    using post
    by (auto simp add: sv req save_written_def save_finish_result saved_events_def
             split: sum.splits)
qed

theorem save_update_no_rows_witness:
  "(\<exists>e. fst (save (stub JUndefined (JNum 0)) (Save_hash None None) (stored, [])) =
          Inl (Thrown NoRowsUpdatedError e)) \<and>
   fst (save (stub JUndefined (JNum 0)) (Save_hash None (Some [(''require'', JBool False)]))
          (stored, [])) = Inr This \<and>
   fst (save ((stub JUndefined (JNum 0))\<lparr>triggerThen := relaxing\<rparr>)
          (Save_hash None (Some [(''require'', JBool True)])) (stored, [])) = Inr This"
proof -
  let ?m = "\<lparr>attributes = [(''id'', JNum 1), (''updated_at'', JNum 1)], model_id = JNum 1,
              previousAttributes = [(''id'', JNum 1)], relations = []\<rparr>"
  have a: "\<exists>e. fst (save (stub JUndefined (JNum 0)) (Save_hash None None) (stored, [])) =
          Inl (Thrown NoRowsUpdatedError e)"
    using save_update_no_rows
      [where p = "stub JUndefined (JNum 0)" and args = "Save_hash None None"
         and w = "(stored, [])" and attrs = "[(''updated_at'', JNum 1)]"
         and options = "[(''method'', JStr ''update''), (''query'', JHost 0)]"
         and ?w1.0 = "(?m, [Call_set [],
               Call_timestamp [(''method'', JStr ''update''), (''silent'', JBool True)],
               Call_sync [(''method'', JStr ''update'')]])"
         and u = "()" and attrs' = "JObj [(''updated_at'', JNum 1)]"
         and options' = "[(''method'', JStr ''update''), (''query'', JHost 0)]"
         and ?m2.0 = ?m and resp = "JNum 0" and ?m3.0 = ?m]
    by (simp add: save_prepare_def save_attrs_def save_options_def save_defaults_def
          save_timestamps_def save_constrain_def save_payload_def invoke_def mutate_def
          stub_def stamps_def stored_def js_set_def js_extend_def js_get_Nil js_get_Cons Let_def)
  have b: "fst (save (stub JUndefined (JNum 0))
              (Save_hash None (Some [(''require'', JBool False)])) (stored, [])) = Inr This"
    using save_update_no_rows
      [where p = "stub JUndefined (JNum 0)"
         and args = "Save_hash None (Some [(''require'', JBool False)])"
         and w = "(stored, [])" and attrs = "[(''updated_at'', JNum 1)]"
         and options = "[(''require'', JBool False), (''method'', JStr ''update''),
                         (''query'', JHost 0)]"
         and ?w1.0 = "(?m, [Call_set [],
               Call_timestamp [(''method'', JStr ''update''), (''silent'', JBool True)],
               Call_sync [(''require'', JBool False), (''method'', JStr ''update'')]])"
         and u = "()" and attrs' = "JObj [(''updated_at'', JNum 1)]"
         and options' = "[(''require'', JBool False), (''method'', JStr ''update''),
                         (''query'', JHost 0)]"
         and ?m2.0 = ?m and resp = "JNum 0" and ?m3.0 = ?m]
    by (simp add: save_prepare_def save_attrs_def save_options_def save_defaults_def
          save_timestamps_def save_constrain_def save_payload_def invoke_def mutate_def
          stub_def stamps_def stored_def js_set_def js_extend_def js_get_Nil js_get_Cons Let_def)
  have c: "fst (save ((stub JUndefined (JNum 0))\<lparr>triggerThen := relaxing\<rparr>)
              (Save_hash None (Some [(''require'', JBool True)])) (stored, [])) = Inr This"
    using save_update_no_rows
      [where p = "(stub JUndefined (JNum 0))\<lparr>triggerThen := relaxing\<rparr>"
         and args = "Save_hash None (Some [(''require'', JBool True)])"
         and w = "(stored, [])" and attrs = "[(''updated_at'', JNum 1)]"
         and options = "[(''require'', JBool True), (''method'', JStr ''update''),
                         (''query'', JHost 0)]"
         and ?w1.0 = "(?m, [Call_set [],
               Call_timestamp [(''method'', JStr ''update''), (''silent'', JBool True)],
               Call_sync [(''require'', JBool True), (''method'', JStr ''update'')]])"
         and u = "()" and attrs' = "JObj [(''updated_at'', JNum 1)]"
         and options' = "[(''require'', JBool False), (''method'', JStr ''update''),
                         (''query'', JHost 0)]"
         and ?m2.0 = ?m and resp = "JNum 0" and ?m3.0 = ?m]
    by (simp add: save_prepare_def save_attrs_def save_options_def save_defaults_def
          save_timestamps_def save_constrain_def save_payload_def invoke_def mutate_def
          stub_def stamps_def stored_def relaxing_def js_set_def js_extend_def js_get_Nil
          js_get_Cons Let_def)
  from a b c show ?thesis by simp
qed

section \<open>save: timestamps and the assigned id on an insert\<close>




section \<open>A handler that raises aborts the write\<close>

text \<open>
  C5. When the handlers of the creating or updating and the saving events reject with
  \<open>err\<close>, \<^verbatim>\<open>save\<close> is rejected with \<open>err\<close> and no Sync method (insert, update or
  any other) is among the calls it made; when the destroying handlers reject with
  \<open>err\<close>, \<^verbatim>\<open>destroy\<close> is rejected with \<open>err\<close> and no Sync method (the delete) is
  among the calls it made.
\<close>

theorem handler_error_aborts_write:
  "(save_prepare p (save_attrs args) (save_options args) (m, cs) =
      (meth, attrs, options, (m1, cs1)) \<and>
    triggerThen p (saving_events meth) (JObj attrs) options m1 = ((Inl err, left), m2) \<longrightarrow>
      fst (save p args (m, cs)) = Inl err \<and>
      filter is_syncRun (drop (length cs) (snd (snd (save p args (m, cs))))) = []) \<and>
   (sync p options' m = (q, m0) \<and>
    triggerThen p ''destroying'' JUndefined (js_set options' ''query'' q) m0 =
      ((Inl err', left'), m2') \<longrightarrow>
      fst (destroy p (Some options') (m, cs)) = Inl err' \<and>
      filter is_syncRun (drop (length cs) (snd (snd (destroy p (Some options') (m, cs))))) = [])"
proof (intro conjI impI)
  assume a: "save_prepare p (save_attrs args) (save_options args) (m, cs) =
      (meth, attrs, options, (m1, cs1)) \<and>
    triggerThen p (saving_events meth) (JObj attrs) options m1 = ((Inl err, left), m2)"
  then have sv: "save p args (m, cs) =
      (Inl err, (m2, cs1 @ [Call_triggerThen (saving_events meth) (JObj attrs) options]))"
    using save_rejected_before_write
      [of p args "(m, cs)" meth attrs options "(m1, cs1)" err left m2]
    by simp
  have cs1: "cs1 = snd (snd (snd (snd (save_prepare p (save_attrs args) (save_options args) (m, cs)))))"
    using a by simp
  show "fst (save p args (m, cs)) = Inl err" by (simp add: sv)
  show "filter is_syncRun (drop (length cs) (snd (snd (save p args (m, cs))))) = []"
    by (simp add: sv cs1 calls_save_prepare split: option.splits)
next
  assume a: "sync p options' m = (q, m0) \<and>
    triggerThen p ''destroying'' JUndefined (js_set options' ''query'' q) m0 =
      ((Inl err', left'), m2')"
  then have d: "destroy p (Some options') (m, cs) =
     (Inl err', (m2', cs @ [Call_sync options',
        Call_triggerThen ''destroying'' JUndefined (js_set options' ''query'' q)]))"
    by (simp add: destroy_def invoke_def Let_def)
  show "fst (destroy p (Some options') (m, cs)) = Inl err'" by (simp add: d)
  show "filter is_syncRun (drop (length cs) (snd (snd (destroy p (Some options') (m, cs))))) = []"
    by (simp add: d)
qed

theorem handler_error_aborts_write_witness:
  "fst (save ((stub JUndefined (JNum 1))\<lparr>triggerThen := rejecting (Thrown Error ''invalid'')\<rparr>)
          (Save_pair ''title'' (JStr ''X'') None) (stored, [])) = Inl (Thrown Error ''invalid'') \<and>
   filter is_syncRun (drop (length ([] :: call list))
      (snd (snd (save ((stub JUndefined (JNum 1))\<lparr>triggerThen := rejecting (Thrown Error ''invalid'')\<rparr>)
          (Save_pair ''title'' (JStr ''X'') None) (stored, []))))) = [] \<and>
   fst (destroy ((stub JUndefined (JNum 1))\<lparr>triggerThen := rejecting (Thrown Error ''invalid'')\<rparr>)
          (Some []) (stored, [])) = Inl (Thrown Error ''invalid'') \<and>
   filter is_syncRun (drop (length ([] :: call list))
      (snd (snd (destroy ((stub JUndefined (JNum 1))\<lparr>triggerThen := rejecting (Thrown Error ''invalid'')\<rparr>)
          (Some []) (stored, []))))) = []"
  using handler_error_aborts_write
    [where p = "(stub JUndefined (JNum 1))\<lparr>triggerThen := rejecting (Thrown Error ''invalid'')\<rparr>"
       and args = "Save_pair ''title'' (JStr ''X'') None" and m = stored and cs = "[]"
       and meth = "''update''"
       and attrs = "[(''title'', JStr ''X''), (''updated_at'', JNum 1)]"
       and options = "[(''method'', JStr ''update''), (''query'', JHost 0)]"
       and ?m1.0 = "\<lparr>attributes = [(''id'', JNum 1), (''title'', JStr ''X''), (''updated_at'', JNum 1)],
                       model_id = JNum 1, previousAttributes = [(''id'', JNum 1)], relations = []\<rparr>"
       and ?cs1.0 = "[Call_set [(''title'', JStr ''X'')],
               Call_timestamp [(''method'', JStr ''update''), (''silent'', JBool True)],
               Call_sync [(''method'', JStr ''update'')]]"
       and err = "Thrown Error ''invalid''"
       and left = "(JObj [(''title'', JStr ''X''), (''updated_at'', JNum 1)],
                    [(''method'', JStr ''update''), (''query'', JHost 0)])"
       and ?m2.0 = "\<lparr>attributes = [(''id'', JNum 1), (''title'', JStr ''X''), (''updated_at'', JNum 1)],
                       model_id = JNum 1, previousAttributes = [(''id'', JNum 1)], relations = []\<rparr>"
       and options' = "[]" and q = "JHost 0" and ?m0.0 = stored
       and err' = "Thrown Error ''invalid''" and left' = "(JUndefined, [(''query'', JHost 0)])"
       and m2' = stored]
  by (simp add: save_prepare_def save_attrs_def save_options_def save_defaults_def
        save_timestamps_def save_constrain_def invoke_def mutate_def saving_events_def
        stub_def stamps_def stored_def rejecting_def js_set_def js_extend_def js_get_Nil
        js_get_Cons Let_def)

section \<open>fetch: the root is loaded before the relations\<close>

lemma fetch_default_options: "fetch p None w = fetch p (Some []) w"
  by (simp add: fetch_def)

lemma calls_fetch_no_rows:
  assumes "sync p options m = (q, m0)"
      and "syncRun p (JStr ''first'') JUndefined options m0 = (r, m1)"
      and "\<forall>resp. r = Inr resp \<longrightarrow> \<not> truthy resp \<or> js_length resp = JNum 0"
  shows "snd (snd (fetch p (Some options) (m, cs))) =
           cs @ [Call_sync options, Call_syncRun (JStr ''first'') JUndefined]"
  using assms
  by (cases r) (simp_all add: fetch_def fetch_chain_def invoke_def)

text \<open>
  The chain of \<^verbatim>\<open>fetch\<close> once the select has resolved with a response that is
  not empty: the response is loaded, the eager loader runs if asked for, the fetched
  event is triggered.
\<close>

lemma fetch_chain_rows:
  assumes "sync p options m = (q, m0)"
      and "syncRun p (JStr ''first'') JUndefined options m0 = (Inr resp, m1)"
      and "truthy resp" and "js_length resp \<noteq> JNum 0"
  shows "fetch_chain p options (m, cs) =
    (case (if truthy (js_get options ''withRelated'')
           then handleEager p resp (js_omit options ''columns'')
                  (handleResponse p resp
                     (m1, cs @ [Call_sync options, Call_syncRun (JStr ''first'') JUndefined]))
           else (Inr (), handleResponse p resp
                     (m1, cs @ [Call_sync options, Call_syncRun (JStr ''first'') JUndefined]))) of
       (Inl err, w3) \<Rightarrow> (Inl err, w3)
     | (Inr u, w3) \<Rightarrow>
         (case invoke (Call_triggerThen ''fetched'' resp options)
                 (triggerThen p ''fetched'' resp options) w3 of
            ((Inl err, left), w4) \<Rightarrow> (Inl err, w4)
          | ((Inr u', left), w4) \<Rightarrow> (Inr This, w4)))"
  using assms by (simp add: fetch_chain_def invoke_def Let_def)

lemma world_fetch: "snd (fetch p (Some options) w) = snd (fetch_chain p options w)"
  by (simp add: fetch_def split: prod.splits sum.splits)

lemma calls_fetch_rows:
  assumes "sync p options m = (q, m0)"
      and "syncRun p (JStr ''first'') JUndefined options m0 = (Inr resp, m1)"
      and "truthy resp" and "js_length resp \<noteq> JNum 0"
  shows "\<exists>rest. snd (snd (fetch p (Some options) (m, cs))) =
           cs @ [Call_sync options, Call_syncRun (JStr ''first'') JUndefined,
            Call_set (parse p (js_first resp)), Call_reset] @
           (case related p of None \<Rightarrow> []
            | Some rd \<Rightarrow> if isJoined rd then [Call_parsePivot] else []) @
           (if truthy (js_get options ''withRelated'')
            then [Call_eagerFetch resp (js_omit options ''columns'')] else []) @ rest \<and>
           (rest = [] \<or> rest = [Call_triggerThen ''fetched'' resp options])"
proof -
  let ?w1 = "(m1, cs @ [Call_sync options, Call_syncRun (JStr ''first'') JUndefined])"
  let ?w2 = "handleResponse p resp ?w1"
  let ?e = "if truthy (js_get options ''withRelated'')
            then handleEager p resp (js_omit options ''columns'') ?w2 else (Inr (), ?w2)"
  have ce: "snd (snd ?e) = snd ?w2 @ (if truthy (js_get options ''withRelated'')
            then [Call_eagerFetch resp (js_omit options ''columns'')] else [])"
    by (simp add: handleEager_def calls_invoke)
  note fc = fetch_chain_rows [OF assms, of cs]
  have "snd (snd (fetch p (Some options) (m, cs))) = snd (snd (fetch_chain p options (m, cs)))"
    by (simp add: world_fetch)
  also have "\<dots> = snd (snd ?e) \<or>
             \<dots> = snd (snd ?e) @ [Call_triggerThen ''fetched'' resp options]"
    unfolding fc
    by (cases ?e) (auto simp: invoke_def split: sum.splits prod.splits)
  ultimately show ?thesis
    unfolding ce calls_handleResponse by auto
qed

text \<open>
  The instance \<^verbatim>\<open>fetch\<close> ends with when it has called the eager loader: what the
  eager loader, run on the instance in which the response has been loaded, left behind,
  handed to the fetched handlers if the loader resolved.
\<close>

lemma instance_fetch_eager:
  assumes "sync p options m = (q, m0)"
      and "syncRun p (JStr ''first'') JUndefined options m0 = (Inr resp, m1)"
      and "truthy resp" and "js_length resp \<noteq> JNum 0"
      and "truthy (js_get options ''withRelated'')"
  shows "fst (snd (fetch p (Some options) (m, cs))) =
     (case eagerFetch p resp (js_omit options ''columns'') (fst (handleResponse p resp (m1, []))) of
        (Inl err, m3) \<Rightarrow> m3
      | (Inr u, m3) \<Rightarrow> snd (triggerThen p ''fetched'' resp options m3))"
proof -
  have same: "fst (handleResponse p resp
                (m1, cs @ [Call_sync options, Call_syncRun (JStr ''first'') JUndefined])) =
              fst (handleResponse p resp (m1, []))"
    by (simp add: instance_handleResponse split: option.splits)
  show ?thesis
    using assms(5)
    by (simp add: world_fetch fetch_chain_rows [OF assms(1-4)] handleEager_def invoke_def same
          split: prod.splits sum.splits)
qed

text \<open>
  C8. If \<^verbatim>\<open>fetch\<close> calls the eager loader at all, with a response \<open>resp\<close>, then
  the select resolved with that response, the response is not empty, and the calls made
  before the eager loader are exactly: the two Sync calls, \<^verbatim>\<open>set\<close> of the parsed
  first row, \<^verbatim>\<open>_reset\<close>, and for a joined relation \<^verbatim>\<open>parsePivot\<close>. The
  instance on which the eager loader runs is the one the Sync left with the response
  loaded into it: the parsed first row set, the change tracking reset and, for a joined
  relation, the pivot parsed; the instance \<^verbatim>\<open>fetch\<close> ends with is what the loader
  made of that one, handed to the fetched handlers if the loader resolved.
\<close>

theorem fetch_loads_root_before_eager:
  assumes sy: "sync p options m = (q, m0)"
      and fi: "syncRun p (JStr ''first'') JUndefined options m0 = (r, m1)"
      and eg: "Call_eagerFetch resp opts \<in>
                 set (drop (length cs) (snd (snd (fetch p (Some options) (m, cs)))))"
  shows "r = Inr resp \<and> truthy resp \<and> js_length resp \<noteq> JNum 0 \<and>
         takeWhile (\<lambda>c. \<not> is_eagerFetch c)
             (drop (length cs) (snd (snd (fetch p (Some options) (m, cs))))) =
           [Call_sync options, Call_syncRun (JStr ''first'') JUndefined,
            Call_set (parse p (js_first resp)), Call_reset] @
           (case related p of None \<Rightarrow> []
            | Some rd \<Rightarrow> if isJoined rd then [Call_parsePivot] else []) \<and>
         fst (snd (fetch p (Some options) (m, cs))) =
           (case eagerFetch p resp opts
                   (case related p of
                      None \<Rightarrow> reset p (set_attrs p (parse p (js_first resp)) m1)
                    | Some rd \<Rightarrow>
                        if isJoined rd
                        then parsePivot p (reset p (set_attrs p (parse p (js_first resp)) m1))
                        else reset p (set_attrs p (parse p (js_first resp)) m1)) of
              (Inl err, m3) \<Rightarrow> m3
            | (Inr u, m3) \<Rightarrow> snd (triggerThen p ''fetched'' resp options m3))"
proof (cases "\<exists>x. r = Inr x \<and> truthy x \<and> js_length x \<noteq> JNum 0")
  case False
  then have "snd (snd (fetch p (Some options) (m, cs))) =
               cs @ [Call_sync options, Call_syncRun (JStr ''first'') JUndefined]"
    using calls_fetch_no_rows [OF sy fi] by blast
  with eg show ?thesis by simp
next
  case True
  then obtain x where x: "r = Inr x" "truthy x" "js_length x \<noteq> JNum 0" by blast
  note fi' = fi [unfolded x(1)]
  from calls_fetch_rows [OF sy fi' x(2) x(3), of cs]
  obtain rest where
    calls: "snd (snd (fetch p (Some options) (m, cs))) =
           cs @ [Call_sync options, Call_syncRun (JStr ''first'') JUndefined,
            Call_set (parse p (js_first x)), Call_reset] @
           (case related p of None \<Rightarrow> []
            | Some rd \<Rightarrow> if isJoined rd then [Call_parsePivot] else []) @
           (if truthy (js_get options ''withRelated'')
            then [Call_eagerFetch x (js_omit options ''columns'')] else []) @ rest"
    and rest: "rest = [] \<or> rest = [Call_triggerThen ''fetched'' x options]"
    by blast
  from eg rest have same: "resp = x \<and> opts = js_omit options ''columns'' \<and>
                           truthy (js_get options ''withRelated'')"
    unfolding calls by (auto split: option.splits if_splits)
  have before: "takeWhile (\<lambda>c. \<not> is_eagerFetch c)
             (drop (length cs) (snd (snd (fetch p (Some options) (m, cs))))) =
           [Call_sync options, Call_syncRun (JStr ''first'') JUndefined,
            Call_set (parse p (js_first resp)), Call_reset] @
           (case related p of None \<Rightarrow> []
            | Some rd \<Rightarrow> if isJoined rd then [Call_parsePivot] else [])"
    using same unfolding calls by (auto split: option.splits)
  have inst: "fst (snd (fetch p (Some options) (m, cs))) =
     (case eagerFetch p resp opts (fst (handleResponse p resp (m1, []))) of
        (Inl err, m3) \<Rightarrow> m3
      | (Inr u, m3) \<Rightarrow> snd (triggerThen p ''fetched'' resp options m3))"
    using instance_fetch_eager [OF sy fi' x(2) x(3), of cs] same by auto
  have loaded: "fst (handleResponse p resp (m1, [])) =
     (case related p of
        None \<Rightarrow> reset p (set_attrs p (parse p (js_first resp)) m1)
      | Some rd \<Rightarrow>
          if isJoined rd
          then parsePivot p (reset p (set_attrs p (parse p (js_first resp)) m1))
          else reset p (set_attrs p (parse p (js_first resp)) m1))"
    by (simp add: instance_handleResponse split: option.splits)
  show ?thesis
    using x same before inst unfolding loaded by simp
qed

theorem fetch_loads_root_before_eager_witness:
  "Call_eagerFetch (JArr [JObj [(''id'', JNum 3)]]) [(''withRelated'', JStr ''editions'')] \<in>
     set (drop (length ([] :: call list))
       (snd (snd (fetch (stub (JArr [JObj [(''id'', JNum 3)]]) JUndefined)
          (Some [(''withRelated'', JStr ''editions'')]) (fresh, []))))) \<and>
   truthy (JArr [JObj [(''id'', JNum 3)]]) \<and>
   takeWhile (\<lambda>c. \<not> is_eagerFetch c)
     (drop (length ([] :: call list))
       (snd (snd (fetch (stub (JArr [JObj [(''id'', JNum 3)]]) JUndefined)
          (Some [(''withRelated'', JStr ''editions'')]) (fresh, []))))) =
     [Call_sync [(''withRelated'', JStr ''editions'')], Call_syncRun (JStr ''first'') JUndefined,
      Call_set [(''id'', JNum 3)], Call_reset] \<and>
   fst (snd (fetch (stub (JArr [JObj [(''id'', JNum 3)]]) JUndefined)
          (Some [(''withRelated'', JStr ''editions'')]) (fresh, []))) =
     \<lparr>attributes = [(''id'', JNum 3)], model_id = JUndefined,
      previousAttributes = [(''id'', JNum 3)], relations = []\<rparr>"
proof -
  have eg: "Call_eagerFetch (JArr [JObj [(''id'', JNum 3)]]) [(''withRelated'', JStr ''editions'')] \<in>
     set (drop (length ([] :: call list))
       (snd (snd (fetch (stub (JArr [JObj [(''id'', JNum 3)]]) JUndefined)
          (Some [(''withRelated'', JStr ''editions'')]) (fresh, [])))))"
    by (simp add: run_defs)
  have sy: "sync (stub (JArr [JObj [(''id'', JNum 3)]]) JUndefined)
              [(''withRelated'', JStr ''editions'')] fresh = (JHost 0, fresh)"
    by (simp add: stub_def)
  have fi: "syncRun (stub (JArr [JObj [(''id'', JNum 3)]]) JUndefined) (JStr ''first'') JUndefined
              [(''withRelated'', JStr ''editions'')] fresh =
            (Inr (JArr [JObj [(''id'', JNum 3)]]), fresh)"
    by (simp add: stub_def)
  from fetch_loads_root_before_eager [OF sy fi eg] eg show ?thesis
    by (simp add: stub_def fresh_def js_extend_def)
qed

section \<open>The options handed to the eager loader\<close>

text \<open>
  C10. When the select resolves with a non-empty response and \<^verbatim>\<open>withRelated\<close>
  is set, \<^verbatim>\<open>fetch\<close> calls the eager loader exactly once, with options that have no
  \<^verbatim>\<open>columns\<close> key and agree with the caller's options on every other key.
\<close>

theorem fetch_eager_options_omit_columns:
  assumes sy: "sync p options m = (q, m0)"
      and fi: "syncRun p (JStr ''first'') JUndefined options m0 = (Inr resp, m1)"
      and ne: "truthy resp" "js_length resp \<noteq> JNum 0"
      and wr: "truthy (js_get options ''withRelated'')"
  shows "\<exists>opts. filter is_eagerFetch (drop (length cs) (snd (snd (fetch p (Some options) (m, cs))))) =
                  [Call_eagerFetch resp opts] \<and>
                map_of opts ''columns'' = None \<and>
                (\<forall>k. k \<noteq> ''columns'' \<longrightarrow> map_of opts k = map_of options k)"
proof -
  from calls_fetch_rows [OF sy fi ne, of cs]
  obtain rest where
    calls: "snd (snd (fetch p (Some options) (m, cs))) =
           cs @ [Call_sync options, Call_syncRun (JStr ''first'') JUndefined,
            Call_set (parse p (js_first resp)), Call_reset] @
           (case related p of None \<Rightarrow> []
            | Some rd \<Rightarrow> if isJoined rd then [Call_parsePivot] else []) @
           (if truthy (js_get options ''withRelated'')
            then [Call_eagerFetch resp (js_omit options ''columns'')] else []) @ rest"
    and rest: "rest = [] \<or> rest = [Call_triggerThen ''fetched'' resp options]"
    by blast
  have "filter is_eagerFetch (drop (length cs) (snd (snd (fetch p (Some options) (m, cs))))) =
          [Call_eagerFetch resp (js_omit options ''columns'')]"
    using rest wr unfolding calls by (auto split: option.splits)
  moreover have "map_of (js_omit options ''columns'') ''columns'' = None"
    by (simp add: map_of_js_omit)
  moreover have "\<forall>k. k \<noteq> ''columns'' \<longrightarrow> map_of (js_omit options ''columns'') k = map_of options k"
    by (simp add: map_of_js_omit)
  ultimately show ?thesis by blast
qed

theorem fetch_eager_options_omit_columns_witness:
  "\<exists>opts.
     filter is_eagerFetch (drop (length ([] :: call list))
       (snd (snd (fetch (stub (JArr [JObj [(''id'', JNum 3)]]) JUndefined)
          (Some [(''columns'', JArr [JStr ''id'']), (''withRelated'', JStr ''editions''),
                 (''transacting'', JHost 4)]) (fresh, []))))) =
       [Call_eagerFetch (JArr [JObj [(''id'', JNum 3)]]) opts] \<and>
     map_of opts ''columns'' = None \<and>
     map_of opts ''withRelated'' = Some (JStr ''editions'') \<and>
     map_of opts ''transacting'' = Some (JHost 4)"
proof -
  let ?options = "[(''columns'', JArr [JStr ''id'']), (''withRelated'', JStr ''editions''),
                   (''transacting'', JHost 4)]"
  have sy: "sync (stub (JArr [JObj [(''id'', JNum 3)]]) JUndefined) ?options fresh = (JHost 0, fresh)"
    by (simp add: stub_def)
  have fi: "syncRun (stub (JArr [JObj [(''id'', JNum 3)]]) JUndefined) (JStr ''first'') JUndefined
              ?options fresh = (Inr (JArr [JObj [(''id'', JNum 3)]]), fresh)"
    by (simp add: stub_def)
  have wr: "truthy (js_get ?options ''withRelated'')"
    by (simp add: js_get_Cons)
  from fetch_eager_options_omit_columns [OF sy fi _ _ wr, of "[]"]
  obtain opts where
    "filter is_eagerFetch (drop (length ([] :: call list))
       (snd (snd (fetch (stub (JArr [JObj [(''id'', JNum 3)]]) JUndefined)
          (Some ?options) (fresh, []))))) = [Call_eagerFetch (JArr [JObj [(''id'', JNum 3)]]) opts]"
    and "map_of opts ''columns'' = None"
    and rest: "\<forall>k. k \<noteq> ''columns'' \<longrightarrow> map_of opts k = map_of ?options k"
    by auto
  moreover from rest have "map_of opts ''withRelated'' = Some (JStr ''editions'')"
    by simp
  moreover from rest have "map_of opts ''transacting'' = Some (JHost 4)"
    by simp
  ultimately show ?thesis by blast
qed

text \<open>
  C9. \<^verbatim>\<open>load\<close> makes one call, to the eager loader, with options in which
  \<^verbatim>\<open>shallow\<close> is \<^verbatim>\<open>true\<close> whatever the caller gave, \<^verbatim>\<open>withRelated\<close>
  is the relations argument when that is an array and the one-element array of it
  otherwise, and every other key reads as in the caller's options.
\<close>

theorem load_eager_options:
  "\<exists>response opts.
     drop (length cs) (snd (snd (load p rels options (m, cs)))) = [Call_eagerFetch response opts] \<and>
     js_get opts ''shallow'' = JBool True \<and>
     js_get opts ''withRelated'' = (if isArray rels then rels else JArr [rels]) \<and>
     (\<forall>k. k \<noteq> ''shallow'' \<and> k \<noteq> ''withRelated'' \<longrightarrow>
        js_get opts k = js_get (case options of None \<Rightarrow> [] | Some ob \<Rightarrow> ob) k)"
proof -
  let ?opts = "js_extend (case options of None \<Rightarrow> [] | Some ob \<Rightarrow> ob)
                 [(''shallow'', JBool True),
                  (''withRelated'', if isArray rels then rels else JArr [rels])]"
  have "snd (snd (load p rels options (m, cs))) =
          cs @ [Call_eagerFetch (JArr [JObj (format p (attributes m))]) ?opts]"
    by (simp add: load_def handleEager_def invoke_def Let_def split: prod.splits sum.splits)
  then show ?thesis
    by (simp add: js_get_js_extend)
qed

theorem load_eager_options_witness:
  "\<exists>response opts.
     drop (length ([] :: call list))
       (snd (snd (load (stub JUndefined JUndefined) (JStr ''editions'')
          (Some [(''shallow'', JBool False), (''transacting'', JHost 4)]) (stored, [])))) =
       [Call_eagerFetch response opts] \<and>
     js_get opts ''shallow'' = JBool True \<and>
     js_get opts ''withRelated'' = JArr [JStr ''editions''] \<and>
     js_get opts ''transacting'' = JHost 4"
proof -
  from load_eager_options [of "[]" "stub JUndefined JUndefined" "JStr ''editions''"
      "Some [(''shallow'', JBool False), (''transacting'', JHost 4)]" stored]
  obtain response opts where
    "drop (length ([] :: call list))
       (snd (snd (load (stub JUndefined JUndefined) (JStr ''editions'')
          (Some [(''shallow'', JBool False), (''transacting'', JHost 4)]) (stored, [])))) =
       [Call_eagerFetch response opts]"
    and "js_get opts ''shallow'' = JBool True"
    and "js_get opts ''withRelated'' = JArr [JStr ''editions'']"
    and rest: "\<forall>k. k \<noteq> ''shallow'' \<and> k \<noteq> ''withRelated'' \<longrightarrow>
        js_get opts k = js_get [(''shallow'', JBool False), (''transacting'', JHost 4)] k"
    by auto
  moreover from rest have "js_get opts ''transacting'' = JHost 4"
    by (simp add: js_get_Cons)
  ultimately show ?thesis by blast
qed

section \<open>Loading a relation: the entry is assigned wholesale\<close>

lemma first_segment_bare: "CHR ''.'' \<notin> set name \<Longrightarrow> first_segment name = name"
  by (auto simp: first_segment_def takeWhile_eq_all_conv)

lemma filter_key_update:
  "distinct (map fst al) \<Longrightarrow> filter (\<lambda>kv. fst kv = k) (AList.update k v al) = [(k, v)]"
proof (induction al)
  case Nil
  then show ?case by simp
next
  case (Cons a al)
  show ?case
  proof (cases "fst a = k")
    case True
    with Cons.prems have "k \<notin> fst ` set al" by auto
    then have "filter (\<lambda>kv. fst kv = k) al = []"
      by (auto simp: filter_empty_conv)
    with True show ?thesis by (cases a) simp
  next
    case False
    with Cons show ?thesis by (cases a) simp
  qed
qed

text \<open>The eager loader as specified, asked for one declared relation by its name.\<close>

lemma spec_eagerFetch_one:
  assumes "requested_paths (js_get options ''withRelated'') = [name]"
      and "CHR ''.'' \<notin> set name"
      and "resolve name rows = Some v"
  shows "spec_eagerFetch resolve rows options m =
           (Inr (), m\<lparr>relations := js_set (relations m) name v\<rparr>)"
  using assms
  by (simp add: spec_eagerFetch_def Let_def first_segment_bare attach_def)

lemma load_one_relation:
  assumes "eagerFetch p = spec_eagerFetch resolve"
      and "CHR ''.'' \<notin> set name"
      and "resolve name (JArr [JObj (format p (attributes m))]) = Some v"
  shows "load p (JStr name) options (m, cs) =
           (Inr This,
            (m\<lparr>relations := js_set (relations m) name v\<rparr>,
             cs @ [Call_eagerFetch (JArr [JObj (format p (attributes m))])
                     (js_extend (case options of None \<Rightarrow> [] | Some ob \<Rightarrow> ob)
                        [(''shallow'', JBool True), (''withRelated'', JArr [JStr name])])]))"
proof -
  have "requested_paths (js_get (js_extend (case options of None \<Rightarrow> [] | Some ob \<Rightarrow> ob)
          [(''shallow'', JBool True), (''withRelated'', JArr [JStr name])]) ''withRelated'') = [name]"
    by (simp add: js_get_js_extend)
  from spec_eagerFetch_one
         [where resolve = resolve and rows = "JArr [JObj (format p (attributes m))]" and v = v,
          OF this assms(2) assms(3)] assms(1)
  show ?thesis
    by (simp add: load_def handleEager_def invoke_def Let_def)
qed

text \<open>
  C6. With the eager loader as specified and a relation name that is declared.
  Loading: on a relations map without duplicate keys, \<^verbatim>\<open>load\<close> leaves the map of
  the instance with the entry under the name set to the value the relation resolves to,
  whatever stood there; loading the relation again leaves the relations map that the
  first load left, and in it exactly one entry under the name, holding that value.
  Fetching: \<^verbatim>\<open>fetch\<close> with \<^verbatim>\<open>withRelated\<close> naming the relation, once the
  select has resolved with a response that is not empty and the response is loaded,
  leaves the relations map of the loaded instance with the entry under the name set to
  the value the relation resolves to, and exactly one entry under the name (the fetched
  handlers being taken to leave the relations alone).
\<close>

theorem load_twice_replaces_relation:
  assumes eager: "eagerFetch p = spec_eagerFetch resolve"
      and bare: "CHR ''.'' \<notin> set name"
  shows "(resolve name (JArr [JObj (format p (attributes m))]) = Some v \<and>
          distinct (map fst (relations m)) \<longrightarrow>
            fst (load p (JStr name) options (m, cs)) = Inr This \<and>
            relations (fst (snd (load p (JStr name) options (m, cs)))) =
              js_set (relations m) name v \<and>
            fst (load p (JStr name) options (snd (load p (JStr name) options (m, cs)))) = Inr This \<and>
            relations (fst (snd (load p (JStr name) options
                (snd (load p (JStr name) options (m, cs)))))) =
              relations (fst (snd (load p (JStr name) options (m, cs)))) \<and>
            filter (\<lambda>kv. fst kv = name)
              (relations (fst (snd (load p (JStr name) options
                 (snd (load p (JStr name) options (m, cs))))))) = [(name, v)]) \<and>
         (sync p fopts m = (q, m0) \<and>
          syncRun p (JStr ''first'') JUndefined fopts m0 = (Inr resp, m1) \<and>
          truthy resp \<and> js_length resp \<noteq> JNum 0 \<and>
          truthy (js_get fopts ''withRelated'') \<and>
          requested_paths (js_get fopts ''withRelated'') = [name] \<and>
          resolve name resp = Some v' \<and>
          distinct (map fst (relations (fst (handleResponse p resp (m1, []))))) \<and>
          (\<forall>a ob x. relations (snd (triggerThen p ''fetched'' a ob x)) = relations x) \<longrightarrow>
            relations (fst (snd (fetch p (Some fopts) (m, cs)))) =
              js_set (relations (fst (handleResponse p resp (m1, [])))) name v' \<and>
            filter (\<lambda>kv. fst kv = name) (relations (fst (snd (fetch p (Some fopts) (m, cs))))) =
              [(name, v')])"
proof (intro conjI impI)
  assume a: "resolve name (JArr [JObj (format p (attributes m))]) = Some v \<and>
          distinct (map fst (relations m))"
  let ?m1 = "m\<lparr>relations := js_set (relations m) name v\<rparr>"
  note one = load_one_relation [OF eager bare a [THEN conjunct1]]
  have declared': "resolve name (JArr [JObj (format p (attributes ?m1))]) = Some v"
    using a by simp
  note two = load_one_relation [OF eager bare declared']
  have idem: "js_set (js_set (relations m) name v) name v = js_set (relations m) name v"
    by (simp add: js_set_def update_triv update_conv')
  show "fst (load p (JStr name) options (m, cs)) = Inr This"
    by (simp add: one)
  show "relations (fst (snd (load p (JStr name) options (m, cs)))) = js_set (relations m) name v"
    by (simp add: one)
  show "fst (load p (JStr name) options (snd (load p (JStr name) options (m, cs)))) = Inr This"
    by (simp add: one two)
  show "relations (fst (snd (load p (JStr name) options
                (snd (load p (JStr name) options (m, cs)))))) =
              relations (fst (snd (load p (JStr name) options (m, cs))))"
    by (simp add: one two idem)
  show "filter (\<lambda>kv. fst kv = name)
              (relations (fst (snd (load p (JStr name) options
                 (snd (load p (JStr name) options (m, cs))))))) = [(name, v)]"
    using a by (simp add: one two idem) (simp add: js_set_def filter_key_update)
next
  assume a: "sync p fopts m = (q, m0) \<and>
          syncRun p (JStr ''first'') JUndefined fopts m0 = (Inr resp, m1) \<and>
          truthy resp \<and> js_length resp \<noteq> JNum 0 \<and>
          truthy (js_get fopts ''withRelated'') \<and>
          requested_paths (js_get fopts ''withRelated'') = [name] \<and>
          resolve name resp = Some v' \<and>
          distinct (map fst (relations (fst (handleResponse p resp (m1, []))))) \<and>
          (\<forall>a ob x. relations (snd (triggerThen p ''fetched'' a ob x)) = relations x)"
  let ?l = "fst (handleResponse p resp (m1, []))"
  have paths: "requested_paths (js_get (js_omit fopts ''columns'') ''withRelated'') = [name]"
    using a by (simp add: js_get_def map_of_js_omit)
  have run: "eagerFetch p resp (js_omit fopts ''columns'') ?l =
               (Inr (), ?l\<lparr>relations := js_set (relations ?l) name v'\<rparr>)"
    using spec_eagerFetch_one
            [where resolve = resolve and rows = resp and v = v' and m = ?l, OF paths bare]
          a eager
    by simp
  have inst: "fst (snd (fetch p (Some fopts) (m, cs))) =
                snd (triggerThen p ''fetched'' resp fopts
                       (?l\<lparr>relations := js_set (relations ?l) name v'\<rparr>))"
    using instance_fetch_eager [of p fopts m q m0 resp m1 cs] a by (simp add: run)
  show rel: "relations (fst (snd (fetch p (Some fopts) (m, cs)))) = js_set (relations ?l) name v'"
    using a by (simp add: inst)
  show "filter (\<lambda>kv. fst kv = name) (relations (fst (snd (fetch p (Some fopts) (m, cs))))) =
              [(name, v')]"
    using a unfolding rel by (simp add: js_set_def filter_key_update)
qed

theorem load_twice_replaces_relation_witness:
  "fst (load ((stub JUndefined JUndefined)\<lparr>eagerFetch :=
          spec_eagerFetch (\<lambda>n rows. if n = ''editions'' then Some (JArr [JNum 10, JNum 11]) else None)\<rparr>)
        (JStr ''editions'') None (stored, [])) = Inr This \<and>
   relations (fst (snd (load ((stub JUndefined JUndefined)\<lparr>eagerFetch :=
          spec_eagerFetch (\<lambda>n rows. if n = ''editions'' then Some (JArr [JNum 10, JNum 11]) else None)\<rparr>)
        (JStr ''editions'') None
        (snd (load ((stub JUndefined JUndefined)\<lparr>eagerFetch :=
          spec_eagerFetch (\<lambda>n rows. if n = ''editions'' then Some (JArr [JNum 10, JNum 11]) else None)\<rparr>)
        (JStr ''editions'') None (stored, [])))))) =
     [(''editions'', JArr [JNum 10, JNum 11])] \<and>
   relations (fst (snd (fetch ((stub (JArr [JObj [(''id'', JNum 1)]]) JUndefined)\<lparr>eagerFetch :=
          spec_eagerFetch (\<lambda>n rows. if n = ''editions'' then Some (JArr [JNum 10, JNum 11]) else None)\<rparr>)
        (Some [(''withRelated'', JArr [JStr ''editions''])])
        (stored\<lparr>relations := [(''editions'', JArr [JNum 9])]\<rparr>, [])))) =
     [(''editions'', JArr [JNum 10, JNum 11])]"
proof -
  let ?r = "\<lambda>n (rows :: jsval). if n = ''editions'' then Some (JArr [JNum 10, JNum 11]) else None"
  let ?p = "(stub JUndefined JUndefined)\<lparr>eagerFetch := spec_eagerFetch ?r\<rparr>"
  let ?f = "(stub (JArr [JObj [(''id'', JNum 1)]]) JUndefined)\<lparr>eagerFetch := spec_eagerFetch ?r\<rparr>"
  let ?old = "stored\<lparr>relations := [(''editions'', JArr [JNum 9])]\<rparr>"
  let ?fopts = "[(''withRelated'', JArr [JStr ''editions''])]"
  have rel: "relations (fst (snd (load ?p (JStr ''editions'') None (stored, [])))) =
               [(''editions'', JArr [JNum 10, JNum 11])]"
    by (simp add: run_defs spec_eagerFetch_def attach_def first_segment_def)
  have wf: "distinct (map fst (relations stored))"
    by (simp add: stored_def)
  have loading: "fst (load ?p (JStr ''editions'') None (stored, [])) = Inr This \<and>
     relations (fst (snd (load ?p (JStr ''editions'') None
        (snd (load ?p (JStr ''editions'') None (stored, [])))))) =
     [(''editions'', JArr [JNum 10, JNum 11])]"
    using load_twice_replaces_relation
      [where p = ?p and name = "''editions''" and m = stored and cs = "[]" and options = None
         and resolve = ?r and v = "JArr [JNum 10, JNum 11]"] wf
    by (simp add: rel)
  have loaded: "fst (handleResponse ?f (JArr [JObj [(''id'', JNum 1)]]) (?old, [])) =
     \<lparr>attributes = [(''id'', JNum 1)], model_id = JNum 1,
      previousAttributes = [(''id'', JNum 1)], relations = [(''editions'', JArr [JNum 9])]\<rparr>"
    by (simp add: handleResponse_def mutate_def stub_def stored_def js_extend_def Let_def)
  have fetching: "relations (fst (snd (fetch ?f (Some ?fopts) (?old, [])))) =
     [(''editions'', JArr [JNum 10, JNum 11])]"
    using load_twice_replaces_relation
      [where p = ?f and name = "''editions''" and m = ?old and cs = "[]"
         and resolve = ?r and fopts = ?fopts and q = "JHost 0" and ?m0.0 = ?old
         and resp = "JArr [JObj [(''id'', JNum 1)]]" and ?m1.0 = ?old
         and v' = "JArr [JNum 10, JNum 11]"]
    by (simp add: loaded js_get_Cons js_set_def) (simp add: stub_def)
  from loading fetching show ?thesis by simp
qed

end
